theory Spec2Isabelle
  imports Complex_Main "HOL-Library.Word"
begin

section \<open>Cost values and the cost grid\<close>

text \<open>
  A grid cell is an \<^verbatim>\<open>unsigned char\<close>: an 8-bit word, compared as an unsigned
  number. The three distinguished values are those of \<^verbatim>\<open>costmap_2d/cost_values.h\<close>,
  which the spec lists in its data model (FREE = 0, LETHAL = 254, NO_INFO = 255).
\<close>

definition NO_INFORMATION :: "8 word" where
  "NO_INFORMATION = 255"

definition LETHAL_OBSTACLE :: "8 word" where
  "LETHAL_OBSTACLE = 254"

definition FREE_SPACE :: "8 word" where
  "FREE_SPACE = 0"

text \<open>
  Modelled from the spec: the class \<^verbatim>\<open>Costmap2D\<close> (costmap_2d/costmap_2d.h) is
  not among the source files. The spec describes it as a rectangular grid with
  \<^verbatim>\<open>size_x\<close>, \<^verbatim>\<open>size_y\<close>, \<^verbatim>\<open>resolution\<close>, a world origin and a dense, row-major
  cell buffer of length \<^verbatim>\<open>size_x * size_y\<close>, with \<^verbatim>\<open>get_cost\<close> and \<^verbatim>\<open>set_cost\<close>.
  A cell \<open>(mx, my)\<close> lives at buffer index \<open>my * size_x + mx\<close>. Doubles are
  modelled as reals.

  An access outside the buffer is undefined behaviour in C++. In the model a
  write outside the buffer is dropped (\<open>list_update\<close>) and a read outside the buffer
  is an unspecified value (\<open>nth\<close>); every concrete evaluation below stays inside
  the buffers.
\<close>

record Costmap2D =
  size_x :: nat
  size_y :: nat
  resolution :: real
  origin_x :: real
  origin_y :: real
  default_value :: "8 word"
  costmap :: "8 word list"

definition getIndex :: "'a Costmap2D_scheme \<Rightarrow> nat \<Rightarrow> nat \<Rightarrow> nat" where
  "getIndex g mx my = my * size_x g + mx"

definition getCost :: "'a Costmap2D_scheme \<Rightarrow> nat \<Rightarrow> nat \<Rightarrow> 8 word" where
  "getCost g mx my = costmap g ! getIndex g mx my"

definition setCost :: "'a Costmap2D_scheme \<Rightarrow> nat \<Rightarrow> nat \<Rightarrow> 8 word \<Rightarrow> 'a Costmap2D_scheme" where
  "setCost g mx my c = g\<lparr>costmap := (costmap g)[getIndex g mx my := c]\<rparr>"

definition resizeMap ::
  "'a Costmap2D_scheme \<Rightarrow> nat \<Rightarrow> nat \<Rightarrow> real \<Rightarrow> real \<Rightarrow> real \<Rightarrow> 'a Costmap2D_scheme" where
  "resizeMap g sx sy res ox oy =
     g\<lparr>size_x := sx, size_y := sy, resolution := res, origin_x := ox, origin_y := oy,
       costmap := replicate (sx * sy) (default_value g)\<rparr>"

text \<open>Invariant 1 of the spec's data model: the buffer has one entry per cell.\<close>

definition grid_ok :: "'a Costmap2D_scheme \<Rightarrow> bool" where
  "grid_ok g = (length (costmap g) = size_x g * size_y g)"

section \<open>The static layer\<close>

text \<open>
  \<^verbatim>\<open>StaticLayer\<close> inherits from \<^verbatim>\<open>Costmap2D\<close> (its private grid) and adds the
  members that static_layer.cpp reads and writes. The members \<^verbatim>\<open>x_\<close>, \<^verbatim>\<open>y_\<close>,
  \<^verbatim>\<open>width_\<close>, \<^verbatim>\<open>height_\<close> (the dirty rectangle) are the fields \<open>rect_x\<close>,
  \<open>rect_y\<close>, \<open>rect_width\<close>, \<open>rect_height\<close>. \<^verbatim>\<open>lethal_threshold_\<close> and
  \<^verbatim>\<open>unknown_cost_value_\<close> are \<^verbatim>\<open>unsigned char\<close>; \<^verbatim>\<open>onInitialize\<close> stores
  \<^verbatim>\<open>max(min(temp_lethal_threshold, 100), 0)\<close> in the first, so it is at most 100.
\<close>

record StaticLayer = Costmap2D +
  enabled :: bool
  has_extra_bounds :: bool
  rect_x :: nat
  rect_y :: nat
  rect_width :: nat
  rect_height :: nat
  map_received :: bool
  has_updated_data :: bool
  track_unknown_space :: bool
  use_maximum :: bool
  trinary_costmap :: bool
  lethal_threshold :: "8 word"
  unknown_cost_value :: "8 word"

subsection \<open>\<^verbatim>\<open>StaticLayer::interpretValue\<close>\<close>

text \<open>
  The implicit conversion of a \<^verbatim>\<open>double\<close> to \<^verbatim>\<open>unsigned char\<close> at the
  \<^verbatim>\<open>return\<close> truncates towards zero.

  The last branch computes \<^verbatim>\<open>(double) value / lethal_threshold_ * 254\<close> in
  floating point; the model computes it over the reals. The two agree after
  truncation: the branch is reached only with \<open>value < lethal_threshold \<le> 100\<close>;
  the exact quotient \<open>254 * value / lethal_threshold\<close> is an integer only when
  \<open>2 * value = lethal_threshold\<close> (127 is prime and exceeds the threshold), where
  the floating-point result is exact (\<open>0.5 * 254\<close>); otherwise it is at least
  \<open>1 / 100\<close> away from every integer, far more than the rounding error of two
  double operations.
\<close>

definition double_to_uchar :: "real \<Rightarrow> 8 word" where
  "double_to_uchar d = word_of_int (if 0 \<le> d then \<lfloor>d\<rfloor> else \<lceil>d\<rceil>)"

definition interpretValue :: "'a StaticLayer_scheme \<Rightarrow> 8 word \<Rightarrow> 8 word" where
  "interpretValue L v =
     (if track_unknown_space L \<and> v = unknown_cost_value L then NO_INFORMATION
      else if \<not> track_unknown_space L \<and> v = unknown_cost_value L then FREE_SPACE
      else if v \<ge> lethal_threshold L then LETHAL_OBSTACLE
      else if trinary_costmap L then FREE_SPACE
      else (let scale = real (unat v) / real (unat (lethal_threshold L))
            in double_to_uchar (scale * real (unat LETHAL_OBSTACLE))))"

text \<open>
  The rule \<^verbatim>\<open>interpret(v)\<close> as the spec words it (section 4.1): the last case is
  \<^verbatim>\<open>round(v / t * LETHAL)\<close>, clamped to \<^verbatim>\<open>[0, LETHAL - 1]\<close>.
\<close>

definition interpret_spec :: "'a StaticLayer_scheme \<Rightarrow> 8 word \<Rightarrow> 8 word" where
  "interpret_spec L v =
     (if track_unknown_space L \<and> v = unknown_cost_value L then NO_INFORMATION
      else if \<not> track_unknown_space L \<and> v = unknown_cost_value L then FREE_SPACE
      else if v \<ge> lethal_threshold L then LETHAL_OBSTACLE
      else if trinary_costmap L then FREE_SPACE
      else word_of_int (max 0 (min (uint LETHAL_OBSTACLE - 1)
             (round (real (unat v) / real (unat (lethal_threshold L)) * real (unat LETHAL_OBSTACLE))))))"

text \<open>A layer with an empty grid, used to build concrete inputs.\<close>

definition layer0 :: StaticLayer where
  "layer0 = \<lparr>size_x = 0, size_y = 0, resolution = 1, origin_x = 0, origin_y = 0,
     default_value = 0, costmap = [],
     enabled = True, has_extra_bounds = False,
     rect_x = 0, rect_y = 0, rect_width = 0, rect_height = 0,
     map_received = False, has_updated_data = False,
     track_unknown_space = True, use_maximum = False, trinary_costmap = True,
     lethal_threshold = 100, unknown_cost_value = 255\<rparr>"

subsection \<open>\<^verbatim>\<open>StaticLayer::incomingMap\<close>\<close>

text \<open>
  The message \<^verbatim>\<open>nav_msgs::OccupancyGrid\<close>: \<^verbatim>\<open>info.width\<close> and \<^verbatim>\<open>info.height\<close>
  are unsigned 32-bit numbers, \<^verbatim>\<open>data\<close> is a vector of signed octets, each read
  into an \<^verbatim>\<open>unsigned char\<close> (the same 8 bits). \<^verbatim>\<open>data[index]\<close> is an unchecked
  read of the vector.
\<close>

record OccupancyGrid =
  info_width :: nat
  info_height :: nat
  info_resolution :: real
  info_origin_x :: real
  info_origin_y :: real
  data :: "8 word list"

text \<open>What the layer reads of \<^verbatim>\<open>layered_costmap_\<close>.\<close>

record LayeredCostmap =
  rolling :: bool
  size_locked :: bool
  master :: Costmap2D

text \<open>
  Modelled from the spec: \<^verbatim>\<open>LayeredCostmap::resizeMap\<close> and the \<^verbatim>\<open>matchSize\<close> it
  calls on the layers are not among the source files. The spec says that the
  master is resized to match the snapshot and that each layer owns a private
  grid of identical shape (data model, invariant 3), so both grids are resized.
\<close>

definition layered_resizeMap ::
  "LayeredCostmap \<Rightarrow> StaticLayer \<Rightarrow> nat \<Rightarrow> nat \<Rightarrow> real \<Rightarrow> real \<Rightarrow> real \<Rightarrow> bool
     \<Rightarrow> LayeredCostmap \<times> StaticLayer" where
  "layered_resizeMap LC L sx sy res ox oy locked =
     (LC\<lparr>size_locked := locked, master := resizeMap (master LC) sx sy res ox oy\<rparr>,
      resizeMap L sx sy res ox oy)"

text \<open>The body of the inner loop: one cell, and \<^verbatim>\<open>++index\<close>.\<close>

definition incomingMap_cell :: "OccupancyGrid \<Rightarrow> nat \<Rightarrow> nat \<Rightarrow> StaticLayer \<times> nat \<Rightarrow> StaticLayer \<times> nat" where
  "incomingMap_cell new_map i j =
     (\<lambda>(L, index). (setCost L j i (interpretValue L (data new_map ! index)), index + 1))"

definition incomingMap_loop :: "OccupancyGrid \<Rightarrow> nat \<Rightarrow> nat \<Rightarrow> StaticLayer \<Rightarrow> StaticLayer" where
  "incomingMap_loop new_map sx sy L =
     fst (fold (\<lambda>i. fold (incomingMap_cell new_map i) [0..<sx]) [0..<sy] (L, 0))"

definition incomingMap :: "OccupancyGrid \<Rightarrow> LayeredCostmap \<times> StaticLayer \<Rightarrow> LayeredCostmap \<times> StaticLayer" where
  "incomingMap new_map =
     (\<lambda>(LC, L).
        let sx = info_width new_map; sy = info_height new_map; M = master LC;
            (LC1, L1) =
              (if \<not> rolling LC \<and>
                    (size_x M \<noteq> sx \<or> size_y M \<noteq> sy \<or>
                     resolution M \<noteq> info_resolution new_map \<or>
                     origin_x M \<noteq> info_origin_x new_map \<or>
                     origin_y M \<noteq> info_origin_y new_map \<or>
                     \<not> size_locked LC)
               then layered_resizeMap LC L sx sy (info_resolution new_map)
                      (info_origin_x new_map) (info_origin_y new_map) True
               else if size_x L \<noteq> sx \<or> size_y L \<noteq> sy \<or>
                     resolution L \<noteq> info_resolution new_map \<or>
                     origin_x L \<noteq> info_origin_x new_map \<or>
                     origin_y L \<noteq> info_origin_y new_map
               then (LC, resizeMap L sx sy (info_resolution new_map)
                      (info_origin_x new_map) (info_origin_y new_map))
               else (LC, L));
            L2 = incomingMap_loop new_map sx sy L1
        in (LC1, L2\<lparr>rect_x := 0, rect_y := 0, rect_width := size_x L2, rect_height := size_y L2,
                    map_received := True, has_updated_data := True\<rparr>))"

subsection \<open>\<^verbatim>\<open>StaticLayer::incomingUpdate\<close>\<close>

text \<open>
  The message \<^verbatim>\<open>map_msgs::OccupancyGridUpdate\<close>: \<^verbatim>\<open>x\<close> and \<^verbatim>\<open>y\<close> are signed
  32-bit numbers, \<^verbatim>\<open>width\<close> and \<^verbatim>\<open>height\<close> unsigned ones. A signed number
  stored in an \<^verbatim>\<open>unsigned int\<close> is taken modulo \<open>2 ^ 32\<close>.
\<close>

record OccupancyGridUpdate =
  upd_x :: int
  upd_y :: int
  upd_width :: nat
  upd_height :: nat
  upd_data :: "8 word list"

definition to_unsigned :: "int \<Rightarrow> nat" where
  "to_unsigned i = nat (i mod 2 ^ 32)"

text \<open>
  The source computes \<^verbatim>\<open>index_base = (update->y + y) * update->width\<close> in the outer
  loop and never uses it: the cell written is \<^verbatim>\<open>setCost(x, y, update->data[di++])\<close>
  with the loop counters alone.
\<close>

definition incomingUpdate_cell ::
  "OccupancyGridUpdate \<Rightarrow> nat \<Rightarrow> nat \<Rightarrow> StaticLayer \<times> nat \<Rightarrow> StaticLayer \<times> nat" where
  "incomingUpdate_cell update y x =
     (\<lambda>(L, di). (setCost L x y (upd_data update ! di), di + 1))"

definition incomingUpdate :: "OccupancyGridUpdate \<Rightarrow> StaticLayer \<Rightarrow> StaticLayer" where
  "incomingUpdate update L =
     (let L1 = fst (fold (\<lambda>y. fold (incomingUpdate_cell update y) [0..<upd_width update])
                      [0..<upd_height update] (L, 0))
      in L1\<lparr>rect_x := to_unsigned (upd_x update), rect_y := to_unsigned (upd_y update),
            rect_width := upd_width update, rect_height := upd_height update,
            has_updated_data := True\<rparr>)"

subsection \<open>\<^verbatim>\<open>StaticLayer::updateBounds\<close>\<close>

text \<open>
  The four bounds the caller passes by pointer. \<^verbatim>\<open>Layer::useExtraBounds\<close> and
  \<^verbatim>\<open>Costmap2D::mapToWorld\<close> are not among the source files and the spec gives
  no formula for them: they are parameters of the model (\<open>ueb\<close>, \<open>m2w\<close>).
\<close>

record Bounds =
  min_x :: real
  min_y :: real
  max_x :: real
  max_y :: real

definition updateBounds ::
  "(StaticLayer \<times> Bounds \<Rightarrow> StaticLayer \<times> Bounds) \<Rightarrow> (StaticLayer \<Rightarrow> nat \<Rightarrow> nat \<Rightarrow> real \<times> real)
     \<Rightarrow> StaticLayer \<Rightarrow> Bounds \<Rightarrow> StaticLayer \<times> Bounds" where
  "updateBounds ueb m2w L B =
     (if \<not> enabled L then (L, B)
      else if \<not> map_received L \<or> \<not> (has_updated_data L \<or> has_extra_bounds L) then (L, B)
      else
        let (L1, B1) = ueb (L, B);
            (wx, wy) = m2w L1 (rect_x L1) (rect_y L1);
            B2 = B1\<lparr>min_x := min wx (min_x B1), min_y := min wy (min_y B1)\<rparr>;
            (wx', wy') = m2w L1 ((rect_x L1 + rect_width L1) mod 2 ^ 32)
                                ((rect_y L1 + rect_height L1) mod 2 ^ 32);
            B3 = B2\<lparr>max_x := max wx' (max_x B2), max_y := max wy' (max_y B2)\<rparr>
        in (L1\<lparr>has_updated_data := False\<rparr>, B3))"

subsection \<open>\<^verbatim>\<open>StaticLayer::updateCosts\<close>\<close>

text \<open>
  Modelled from the spec: \<^verbatim>\<open>CostmapLayer::updateWithTrueOverwrite\<close> and
  \<^verbatim>\<open>CostmapLayer::updateWithMax\<close>, which the non-rolling branch calls, are not
  among the source files. The spec says: if \<^verbatim>\<open>use_maximum\<close> is false, stamp the
  private grid directly onto the master rectangle (true overwrite, including
  \<^verbatim>\<open>NO_INFO\<close>); otherwise apply \<^verbatim>\<open>max\<close> per cell.
\<close>

definition updateWithTrueOverwrite ::
  "StaticLayer \<Rightarrow> Costmap2D \<Rightarrow> int \<Rightarrow> int \<Rightarrow> int \<Rightarrow> int \<Rightarrow> Costmap2D" where
  "updateWithTrueOverwrite L master_grid min_i min_j max_i max_j =
     fold (\<lambda>j. fold (\<lambda>i M. setCost M i j (getCost L i j)) [nat min_i..<nat max_i])
       [nat min_j..<nat max_j] master_grid"

definition updateWithMax ::
  "StaticLayer \<Rightarrow> Costmap2D \<Rightarrow> int \<Rightarrow> int \<Rightarrow> int \<Rightarrow> int \<Rightarrow> Costmap2D" where
  "updateWithMax L master_grid min_i min_j max_i max_j =
     fold (\<lambda>j. fold (\<lambda>i M. setCost M i j (max (getCost M i j) (getCost L i j))) [nat min_i..<nat max_i])
       [nat min_j..<nat max_j] master_grid"

text \<open>
  The rolling branch is in the source. Its projection of a master cell to a cell
  of the private grid, \<^verbatim>\<open>mapToWorld\<close> on the master followed by \<^verbatim>\<open>worldToMap\<close>
  on the layer, is floating-point code of \<^verbatim>\<open>Costmap2D\<close> that is not among the
  source files; it does not depend on the cell values, and it is the parameter
  \<open>proj\<close> (\<open>None\<close> when \<^verbatim>\<open>worldToMap\<close> returns false).

  The two nested \<^verbatim>\<open>if\<close>/\<^verbatim>\<open>else\<close> of the maximum branch have no braces; C++
  attaches each \<^verbatim>\<open>else\<close> to the nearest open \<^verbatim>\<open>if\<close>, which gives the nesting
  below. The loop counters are \<^verbatim>\<open>unsigned int\<close>, initialised from and
  compared with the signed bounds converted to unsigned.
\<close>

definition updateCosts_cell ::
  "StaticLayer \<Rightarrow> (nat \<Rightarrow> nat \<Rightarrow> (nat \<times> nat) option) \<Rightarrow> nat \<Rightarrow> nat \<Rightarrow> Costmap2D \<Rightarrow> Costmap2D" where
  "updateCosts_cell L proj i j master_grid =
     (case proj i j of
        None \<Rightarrow> master_grid
      | Some (mx, my) \<Rightarrow>
          let cost = getCost L mx my in
          if cost = NO_INFORMATION then master_grid
          else if \<not> use_maximum L then setCost master_grid i j cost
          else
            let old_cost = getCost master_grid i j in
            if track_unknown_space L then
              (if cost = LETHAL_OBSTACLE then setCost master_grid i j cost
               else setCost master_grid i j (max cost old_cost))
            else
              (if old_cost = NO_INFORMATION then setCost master_grid i j cost
               else setCost master_grid i j (max cost old_cost)))"

definition updateCosts ::
  "LayeredCostmap \<Rightarrow> (nat \<Rightarrow> nat \<Rightarrow> (nat \<times> nat) option) \<Rightarrow> StaticLayer \<Rightarrow> Costmap2D
     \<Rightarrow> int \<Rightarrow> int \<Rightarrow> int \<Rightarrow> int \<Rightarrow> Costmap2D" where
  "updateCosts LC proj L master_grid min_i min_j max_i max_j =
     (if \<not> enabled L then master_grid
      else if \<not> map_received L then master_grid
      else if \<not> rolling LC then
        (if \<not> use_maximum L then updateWithTrueOverwrite L master_grid min_i min_j max_i max_j
         else updateWithMax L master_grid min_i min_j max_i max_j)
      else
        fold (\<lambda>i. fold (\<lambda>j. updateCosts_cell L proj i j) [to_unsigned min_j..<to_unsigned max_j])
          [to_unsigned min_i..<to_unsigned max_i] master_grid)"

subsection \<open>Relations between a master grid before and after a stamp\<close>

text \<open>
  Used to state what a stamp with \<^verbatim>\<open>use_maximum\<close> preserves. \<open>cell_inv t old cur\<close>
  relates the value \<open>old\<close> a master cell had before the call to its value \<open>cur\<close>
  at some point of the rolling loop, \<open>t\<close> being \<^verbatim>\<open>track_unknown_space\<close>: a cell
  that held information never loses value and never becomes \<^verbatim>\<open>NO_INFO\<close>; with
  \<open>t\<close>, a cell that was \<^verbatim>\<open>NO_INFO\<close> is \<^verbatim>\<open>NO_INFO\<close> or \<^verbatim>\<open>LETHAL\<close>. \<open>grid_mono\<close>
  says that no cell lost value.
\<close>

definition cell_inv :: "bool \<Rightarrow> 8 word \<Rightarrow> 8 word \<Rightarrow> bool" where
  "cell_inv t old cur =
     ((old \<noteq> NO_INFORMATION \<longrightarrow> old \<le> cur \<and> cur \<noteq> NO_INFORMATION) \<and>
      (old = NO_INFORMATION \<and> t \<longrightarrow> cur = NO_INFORMATION \<or> cur = LETHAL_OBSTACLE))"

definition grid_inv :: "bool \<Rightarrow> Costmap2D \<Rightarrow> Costmap2D \<Rightarrow> bool" where
  "grid_inv t M0 M =
     (length (costmap M) = length (costmap M0) \<and>
      (\<forall>k < length (costmap M0). cell_inv t (costmap M0 ! k) (costmap M ! k)))"

definition grid_mono :: "Costmap2D \<Rightarrow> Costmap2D \<Rightarrow> bool" where
  "grid_mono M0 M =
     (length (costmap M) = length (costmap M0) \<and>
      (\<forall>k < length (costmap M0). costmap M0 ! k \<le> costmap M ! k))"

section \<open>The local planner\<close>

subsection \<open>\<^verbatim>\<open>DWAPlanner::determineState\<close>\<close>

text \<open>
  The enumeration of dwa_planner.h; its last value, \<^verbatim>\<open>None\<close>, is \<open>None_state\<close>
  here. The function-local \<^verbatim>\<open>static LocalPlannerState prev_state = None\<close> is a
  field of the planner's state, next to the switch thresholds that the function
  reads. Doubles are modelled as reals.
\<close>

datatype LocalPlannerState = Default | Arrive | Align | NotMoving | None_state

record DWAPlanner =
  switch_yaw_error :: real
  switch_plan_distance :: real
  switch_goal_distance :: real
  prev_state :: LocalPlannerState

definition determineState :: "DWAPlanner \<Rightarrow> real \<Rightarrow> real \<Rightarrow> real \<Rightarrow> LocalPlannerState \<times> DWAPlanner" where
  "determineState P yaw_error plan_distance goal_distance =
     (let state =
            (if goal_distance < switch_goal_distance P then Arrive
             else if \<bar>yaw_error\<bar> > switch_yaw_error P \<or>
                     (prev_state P = Align \<and> \<bar>yaw_error\<bar> > switch_yaw_error P / 2)
             then Align
             else Default)
      in (state, if prev_state P \<noteq> state then P\<lparr>prev_state := state\<rparr> else P))"

text \<open>The planner as constructed: no state has been returned yet.\<close>

definition planner0 :: "real \<Rightarrow> real \<Rightarrow> real \<Rightarrow> DWAPlanner" where
  "planner0 sy sp sg =
     \<lparr>switch_yaw_error = sy, switch_plan_distance = sp, switch_goal_distance = sg,
      prev_state = None_state\<rparr>"

subsection \<open>\<^verbatim>\<open>DWAPlannerROS\<close>: one control cycle\<close>

text \<open>
  A pose (\<^verbatim>\<open>tf::Stamped<tf::Pose>\<close>) is reduced to the planar pose of the spec;
  of a trajectory and of the command (\<^verbatim>\<open>geometry_msgs::Twist\<close>) the model keeps
  the members that dwa_planner_ros.cpp reads and writes.
\<close>

record Pose =
  pose_x :: real
  pose_y :: real
  pose_yaw :: real

record Trajectory =
  traj_xv :: real
  traj_yv :: real
  traj_thetav :: real
  traj_cost :: real

record Twist =
  linear_x :: real
  linear_y :: real
  linear_z :: real
  angular_x :: real
  angular_y :: real
  angular_z :: real

record LocalPlannerLimits =
  xy_goal_tolerance :: real
  yaw_goal_tolerance :: real
  trans_stopped_vel :: real
  rot_stopped_vel :: real

definition setCmdVel :: "Trajectory \<Rightarrow> Twist \<Rightarrow> Twist" where
  "setCmdVel traj c =
     (if traj_cost traj \<ge> 0
      then c\<lparr>linear_x := traj_xv traj, linear_y := traj_yv traj, angular_z := traj_thetav traj\<rparr>
      else c\<lparr>linear_x := 0, linear_y := 0, angular_z := 0\<rparr>)"

text \<open>
  What the cycle obtains from code that is not among the source files, as the
  spec's external collaborators: whether \<^verbatim>\<open>initialize\<close> has run, the pose source
  (\<^verbatim>\<open>costmap_ros_->getRobotPose\<close>: success, and what it leaves in the pose passed
  by reference), the odometry (\<^verbatim>\<open>odom_helper_.getRobotVel\<close>), the plan source
  (\<^verbatim>\<open>planner_util_.getLocalPlan\<close>), the goal (\<^verbatim>\<open>planner_util_.getGoal\<close>), the
  limits, the helpers of \<^verbatim>\<open>base_local_planner/goal_functions.h\<close>, and the
  trajectory that \<^verbatim>\<open>dp_->updatePlanAndLocalCosts\<close> and \<^verbatim>\<open>dp_->findBestPath\<close> obtain
  from the scored sampler.

  \<^verbatim>\<open>getRobotState\<close> and \<^verbatim>\<open>getRobotStateAndLocalPlan\<close> are declared \<^verbatim>\<open>bool\<close> and
  have no \<^verbatim>\<open>return\<close> statement on the path where nothing failed. Flowing off the
  end of such a function is undefined behaviour: the language fixes no value for
  what the caller then tests. The model returns \<open>FellOffEnd\<close> there, and the two
  fields \<open>end_of_getRobotState\<close> and \<open>end_of_getRobotStateAndLocalPlan\<close> hold the
  value that the caller happens to read in that case.
\<close>

datatype ret = Returned bool | FellOffEnd

record Collaborators =
  initialized :: bool
  getRobotPose :: "Pose \<Rightarrow> bool \<times> Pose"
  getRobotVel :: Pose
  getLocalPlan :: "Pose \<Rightarrow> Pose list \<Rightarrow> bool \<times> Pose list"
  getGoal :: "bool \<times> Pose"
  getCurrentLimits :: LocalPlannerLimits
  getGoalPositionDistance :: "Pose \<Rightarrow> real \<Rightarrow> real \<Rightarrow> real"
  getGoalOrientationAngleDifference :: "Pose \<Rightarrow> real \<Rightarrow> real"
  stopped :: "Pose \<Rightarrow> real \<Rightarrow> real \<Rightarrow> bool"
  findBestPath :: "Pose \<Rightarrow> Pose \<Rightarrow> Pose list \<Rightarrow> Trajectory"
  end_of_getRobotState :: bool
  end_of_getRobotStateAndLocalPlan :: bool

definition observed :: "bool \<Rightarrow> ret \<Rightarrow> bool" where
  "observed u r = (case r of Returned b \<Rightarrow> b | FellOffEnd \<Rightarrow> u)"

definition getRobotState :: "Collaborators \<Rightarrow> Pose \<times> Pose \<Rightarrow> ret \<times> Pose \<times> Pose" where
  "getRobotState E =
     (\<lambda>(robot_pose, robot_vel).
        if \<not> initialized E then (Returned False, robot_pose, robot_vel)
        else
          (case getRobotPose E robot_pose of
             (ok, robot_pose') \<Rightarrow>
               if \<not> ok then (Returned False, robot_pose', robot_vel)
               else (FellOffEnd, robot_pose', getRobotVel E)))"

text \<open>The call of \<^verbatim>\<open>getRobotState\<close> is a statement of its own: its result is dropped.\<close>

definition getRobotStateAndLocalPlan ::
  "Collaborators \<Rightarrow> Pose \<times> Pose \<times> Pose list \<Rightarrow> ret \<times> Pose \<times> Pose \<times> Pose list" where
  "getRobotStateAndLocalPlan E =
     (\<lambda>(robot_pose, robot_vel, local_plan).
        (case getRobotState E (robot_pose, robot_vel) of
           (_, robot_pose', robot_vel') \<Rightarrow>
             (case getLocalPlan E robot_pose' local_plan of
                (ok, local_plan') \<Rightarrow>
                  if \<not> ok then (Returned False, robot_pose', robot_vel', local_plan')
                  else if local_plan' = [] then (Returned False, robot_pose', robot_vel', local_plan')
                  else (FellOffEnd, robot_pose', robot_vel', local_plan'))))"

text \<open>
  \<^verbatim>\<open>isGoalReached\<close> and \<^verbatim>\<open>computeVelocityCommands\<close> take the contents of their
  default-constructed local poses as arguments. The result of
  \<^verbatim>\<open>computeVelocityCommands\<close> is the value returned and the command left in
  \<^verbatim>\<open>cmd_vel\<close>; the plan and the trajectory published for visualisation are left
  out.
\<close>

definition isGoalReached :: "Collaborators \<Rightarrow> Pose \<times> Pose \<Rightarrow> bool" where
  "isGoalReached E locals =
     (case getRobotState E locals of
        (r, robot_pose, robot_vel) \<Rightarrow>
          if \<not> observed (end_of_getRobotState E) r then False
          else
            let l = getCurrentLimits E in
            (case getGoal E of
               (ok, goal_pose) \<Rightarrow>
                 if \<not> ok then False
                 else
                   let xy_to_goal = getGoalPositionDistance E robot_pose (pose_x goal_pose) (pose_y goal_pose);
                       angle_to_goal = getGoalOrientationAngleDifference E robot_pose (pose_yaw goal_pose);
                       is_stopped = stopped E robot_vel (rot_stopped_vel l) (trans_stopped_vel l)
                   in if xy_to_goal \<le> xy_goal_tolerance l \<and> \<bar>angle_to_goal\<bar> \<le> yaw_goal_tolerance l \<and> is_stopped
                      then True else False))"

definition computeVelocityCommands :: "Collaborators \<Rightarrow> Pose \<times> Pose \<Rightarrow> Twist \<Rightarrow> bool \<times> Twist" where
  "computeVelocityCommands E locals cmd_vel =
     (case getRobotStateAndLocalPlan E (fst locals, snd locals, []) of
        (r, robot_pose, robot_vel, local_plan) \<Rightarrow>
          if \<not> observed (end_of_getRobotStateAndLocalPlan E) r then (False, cmd_vel)
          else
            let traj = findBestPath E robot_pose robot_vel local_plan;
                cmd_vel' = setCmdVel traj cmd_vel
            in (traj_cost traj \<ge> 0, cmd_vel'))"

section \<open>Concrete inputs\<close>

text \<open>
  A cycle in which every collaborator succeeds: the robot is at \<open>(1, 2)\<close>, the plan
  and the goal are the single pose \<open>(4, 6)\<close>, five units away, and the sampler
  returns a legal trajectory. The helpers of goal_functions.h are instantiated
  with the Euclidean distance, the plain difference of the yaws and a
  component-wise test of the velocity.
\<close>

definition pose0 :: Pose where "pose0 = \<lparr>pose_x = 0, pose_y = 0, pose_yaw = 0\<rparr>"
definition twist0 :: Twist where
  "twist0 = \<lparr>linear_x = 9, linear_y = 9, linear_z = 0, angular_x = 0, angular_y = 0, angular_z = 9\<rparr>"

definition collab0 :: Collaborators where
  "collab0 =
     \<lparr>initialized = True,
      getRobotPose = (\<lambda>p. (True, \<lparr>pose_x = 1, pose_y = 2, pose_yaw = 0\<rparr>)),
      getRobotVel = pose0,
      getLocalPlan = (\<lambda>p plan. (True, [\<lparr>pose_x = 4, pose_y = 6, pose_yaw = 1 / 10\<rparr>])),
      getGoal = (True, \<lparr>pose_x = 4, pose_y = 6, pose_yaw = 1 / 10\<rparr>),
      getCurrentLimits = \<lparr>xy_goal_tolerance = 5, yaw_goal_tolerance = 1 / 10,
                           trans_stopped_vel = 1 / 10, rot_stopped_vel = 1 / 10\<rparr>,
      getGoalPositionDistance = (\<lambda>p gx gy. sqrt ((gx - pose_x p)^2 + (gy - pose_y p)^2)),
      getGoalOrientationAngleDifference = (\<lambda>p gth. gth - pose_yaw p),
      stopped = (\<lambda>v rot trans. \<bar>pose_yaw v\<bar> \<le> rot \<and> \<bar>pose_x v\<bar> \<le> trans \<and> \<bar>pose_y v\<bar> \<le> trans),
      findBestPath = (\<lambda>p v plan. \<lparr>traj_xv = 1 / 2, traj_yv = 0, traj_thetav = 1 / 4, traj_cost = 3\<rparr>),
      end_of_getRobotState = True,
      end_of_getRobotStateAndLocalPlan = True\<rparr>"

text \<open>
  A rolling layered costmap with a master grid of two by two cells, a static
  layer whose private grid has the same shape, a patch of one cell at \<open>(1, 1)\<close>,
  a well-formed snapshot of two cells (one lethal, one unknown), and a snapshot
  that announces one cell and carries two.
\<close>

definition master0 :: Costmap2D where
  "master0 = \<lparr>size_x = 2, size_y = 2, resolution = 1, origin_x = 0, origin_y = 0,
     default_value = 0, costmap = [10, 255, 30, 40]\<rparr>"

definition layered0 :: LayeredCostmap where
  "layered0 = \<lparr>rolling = True, size_locked = True, master = master0\<rparr>"

definition layer2x2 :: StaticLayer where
  "layer2x2 = layer0\<lparr>size_x := 2, size_y := 2, costmap := [0, 0, 0, 0], map_received := True\<rparr>"


definition snapshot_long :: OccupancyGrid where
  "snapshot_long = \<lparr>info_width = 1, info_height = 1, info_resolution = 1,
     info_origin_x = 0, info_origin_y = 0, data = [100, 0]\<rparr>"

definition patch0 :: OccupancyGridUpdate where
  "patch0 = \<lparr>upd_x = 1, upd_y = 1, upd_width = 1, upd_height = 1, upd_data = [100]\<rparr>"

definition bounds0 :: Bounds where
  "bounds0 = \<lparr>min_x = 1, min_y = 1, max_x = 2, max_y = 2\<rparr>"

text \<open>
  A layer that stamps with \<^verbatim>\<open>use_maximum\<close> and tracks unknown space; its cell
  \<open>(1, 0)\<close> is lethal where the master grid \<open>master0\<close> has no information.
\<close>

definition layer_max :: StaticLayer where
  "layer_max = layer0\<lparr>size_x := 2, size_y := 2, costmap := [20, 254, 50, 255],
     map_received := True, use_maximum := True\<rparr>"

section \<open>Properties of the static layer\<close>

subsection \<open>Interpretation of snapshot values\<close>

lemma truncated_scale:
  fixes v t :: "8 word"
  shows "\<lfloor>real (unat v) / real (unat t) * 254\<rfloor> = int (unat v * 254 div unat t)"
proof -
  have "real (unat v) / real (unat t) * 254 = real (unat v * 254) / real (unat t)"
    by simp
  then show ?thesis
    by (simp only: floor_divide_of_nat_eq)
qed

lemma truncated_scale_bound:
  fixes v t :: "8 word"
  assumes "v < t"
  shows "unat v * 254 div unat t \<le> 253"
proof -
  have "unat v < unat t" using assms by (simp add: word_less_nat_alt)
  then have "unat v * 254 < 254 * unat t" by simp
  then have "unat v * 254 div unat t < 254"
    by (simp add: less_mult_imp_div_less)
  then show ?thesis by simp
qed

lemma double_to_uchar_scale:
  fixes v t :: "8 word"
  shows "double_to_uchar (real (unat v) / real (unat t) * real (unat LETHAL_OBSTACLE)) =
         word_of_int \<lfloor>real (unat v) / real (unat t) * 254\<rfloor>"
proof -
  have "0 \<le> real (unat v) / real (unat t) * 254"
    by (intro mult_nonneg_nonneg divide_nonneg_nonneg of_nat_0_le_iff) simp
  moreover have "real (unat LETHAL_OBSTACLE) = 254"
    by (simp add: LETHAL_OBSTACLE_def)
  ultimately show ?thesis
    by (simp only: double_to_uchar_def if_True)
qed

text \<open>
  Claim C3, amended. The first four cases of \<^verbatim>\<open>interpret(v)\<close> are as the spec lists
  them. In the last case the code does not round: it truncates
  \<open>v / t * LETHAL\<close> (the conversion of a \<^verbatim>\<open>double\<close> to \<^verbatim>\<open>unsigned char\<close>), which
  is the integer quotient \<open>254 * v div t\<close> and lies in \<open>[0, LETHAL - 1]\<close> without
  any clamping. With \<^verbatim>\<open>trinary_costmap = false\<close> and \<^verbatim>\<open>lethal_threshold = 50\<close>,
  \<^verbatim>\<open>interpret(25) = 127\<close> (25 not being the unknown value). The threshold is at
  most 100, as \<^verbatim>\<open>onInitialize\<close> leaves it.
\<close>

theorem interpretValue_truncates:
  assumes "lethal_threshold L \<le> 100"
  shows "interpretValue L v =
           (if track_unknown_space L \<and> v = unknown_cost_value L then NO_INFORMATION
            else if \<not> track_unknown_space L \<and> v = unknown_cost_value L then FREE_SPACE
            else if v \<ge> lethal_threshold L then LETHAL_OBSTACLE
            else if trinary_costmap L then FREE_SPACE
            else word_of_int \<lfloor>real (unat v) / real (unat (lethal_threshold L)) * 254\<rfloor>)
         \<and> (v < lethal_threshold L \<longrightarrow>
              \<lfloor>real (unat v) / real (unat (lethal_threshold L)) * 254\<rfloor>
                = int (unat v * 254 div unat (lethal_threshold L))
              \<and> unat v * 254 div unat (lethal_threshold L) \<le> 253)
         \<and> (\<not> trinary_costmap L \<and> lethal_threshold L = 50 \<and> unknown_cost_value L \<noteq> 25 \<longrightarrow>
              interpretValue L 25 = 127)"
proof (intro conjI impI)
  show "interpretValue L v =
           (if track_unknown_space L \<and> v = unknown_cost_value L then NO_INFORMATION
            else if \<not> track_unknown_space L \<and> v = unknown_cost_value L then FREE_SPACE
            else if v \<ge> lethal_threshold L then LETHAL_OBSTACLE
            else if trinary_costmap L then FREE_SPACE
            else word_of_int \<lfloor>real (unat v) / real (unat (lethal_threshold L)) * 254\<rfloor>)"
    unfolding interpretValue_def Let_def
    by (simp only: double_to_uchar_scale)
next
  assume "v < lethal_threshold L"
  then show "unat v * 254 div unat (lethal_threshold L) \<le> 253"
    by (rule truncated_scale_bound)
next
  show "\<lfloor>real (unat v) / real (unat (lethal_threshold L)) * 254\<rfloor>
          = int (unat v * 254 div unat (lethal_threshold L))"
    by (rule truncated_scale)
next
  assume "\<not> trinary_costmap L \<and> lethal_threshold L = 50 \<and> unknown_cost_value L \<noteq> 25"
  then show "interpretValue L 25 = 127"
    by (simp add: interpretValue_def double_to_uchar_def LETHAL_OBSTACLE_def)
qed

theorem interpretValue_truncates_witness:
  "lethal_threshold (layer0\<lparr>trinary_costmap := False\<rparr>) \<le> 100
   \<and> (1 :: 8 word) < lethal_threshold (layer0\<lparr>trinary_costmap := False\<rparr>)
   \<and> interpretValue (layer0\<lparr>trinary_costmap := False\<rparr>) 1 = 2
   \<and> lethal_threshold (layer0\<lparr>trinary_costmap := False, lethal_threshold := 50\<rparr>) \<le> 100
   \<and> interpretValue (layer0\<lparr>trinary_costmap := False, lethal_threshold := 50\<rparr>) 25 = 127"
  using interpretValue_truncates [of "layer0\<lparr>trinary_costmap := False\<rparr>" 1]
    interpretValue_truncates [of "layer0\<lparr>trinary_costmap := False, lethal_threshold := 50\<rparr>" 25]
  by (simp add: layer0_def word_le_nat_alt word_less_nat_alt)

text \<open>
  Claim C3 as stated fails: with \<^verbatim>\<open>lethal_threshold = 100\<close> and a scaled
  (non-trinary) map, the input 1 gives \<open>\<lfloor>2.54\<rfloor> = 2\<close> in the code, where the spec's
  rounding gives 3.
\<close>

theorem interpret_round_counterexample:
  "interpretValue (layer0\<lparr>trinary_costmap := False\<rparr>) 1 = 2
   \<and> interpret_spec (layer0\<lparr>trinary_costmap := False\<rparr>) 1 = 3"
  by (simp add: interpretValue_def interpret_spec_def layer0_def double_to_uchar_def
        LETHAL_OBSTACLE_def round_def word_le_nat_alt)

subsection \<open>Snapshots\<close>

lemma interpretValue_costmap [simp]:
  "interpretValue (L\<lparr>costmap := c\<rparr>) v = interpretValue L v"
  by (simp add: interpretValue_def)

lemma interpretValue_resizeMap [simp]:
  "interpretValue (resizeMap L sx sy res ox oy) v = interpretValue L v"
  by (simp add: interpretValue_def resizeMap_def)

lemma incomingMap_row:
  assumes "size_x L = sx"
  shows "fold (incomingMap_cell new_map i) [0..<n] (L, i * sx) =
           (L\<lparr>costmap := map (\<lambda>k. if i * sx \<le> k \<and> k < i * sx + n
                                     then interpretValue L (data new_map ! k) else costmap L ! k)
                             [0..<length (costmap L)]\<rparr>,
            i * sx + n)"
proof (induction n)
  case 0
  have "(\<lambda>k. if i * sx \<le> k \<and> k < i * sx + 0
              then interpretValue L (data new_map ! k) else costmap L ! k) = (\<lambda>k. costmap L ! k)"
    by (rule ext) auto
  then show ?case by (simp add: map_nth)
next
  case (Suc n)
  let ?c = "map (\<lambda>k. if i * sx \<le> k \<and> k < i * sx + n
                        then interpretValue L (data new_map ! k) else costmap L ! k)
              [0..<length (costmap L)]"
  let ?c' = "map (\<lambda>k. if i * sx \<le> k \<and> k < i * sx + Suc n
                        then interpretValue L (data new_map ! k) else costmap L ! k)
              [0..<length (costmap L)]"
  have upd: "?c[i * sx + n := interpretValue L (data new_map ! (i * sx + n))] = ?c'"
  proof (rule nth_equalityI)
    show "length (?c[i * sx + n := interpretValue L (data new_map ! (i * sx + n))]) = length ?c'"
      by simp
  next
    fix k
    assume "k < length (?c[i * sx + n := interpretValue L (data new_map ! (i * sx + n))])"
    then have k: "k < length (costmap L)" by simp
    show "?c[i * sx + n := interpretValue L (data new_map ! (i * sx + n))] ! k = ?c' ! k"
    proof (cases "k = i * sx + n")
      case True
      then show ?thesis using k by simp
    next
      case False
      then have "(k < i * sx + Suc n) = (k < i * sx + n)" by arith
      then show ?thesis using k False by simp
    qed
  qed
  have "fold (incomingMap_cell new_map i) [0..<Suc n] (L, i * sx) =
          incomingMap_cell new_map i n (L\<lparr>costmap := ?c\<rparr>, i * sx + n)"
    by (simp add: Suc.IH)
  also have "\<dots> = (L\<lparr>costmap := ?c'\<rparr>, i * sx + Suc n)"
    using assms upd by (simp add: incomingMap_cell_def setCost_def getIndex_def)
  finally show ?case .
qed

lemma incomingMap_rows:
  assumes "size_x L = sx"
  shows "fold (\<lambda>i. fold (incomingMap_cell new_map i) [0..<sx]) [0..<r] (L, 0) =
           (L\<lparr>costmap := map (\<lambda>k. if k < r * sx
                                     then interpretValue L (data new_map ! k) else costmap L ! k)
                             [0..<length (costmap L)]\<rparr>,
            r * sx)"
proof (induction r)
  case 0
  show ?case by (simp add: map_nth)
next
  case (Suc r)
  let ?c = "map (\<lambda>k. if k < r * sx
                        then interpretValue L (data new_map ! k) else costmap L ! k)
              [0..<length (costmap L)]"
  let ?L = "L\<lparr>costmap := ?c\<rparr>"
  have sz: "size_x ?L = sx" using assms by simp
  have "fold (\<lambda>i. fold (incomingMap_cell new_map i) [0..<sx]) [0..<Suc r] (L, 0) =
          fold (incomingMap_cell new_map r) [0..<sx] (?L, r * sx)"
    by (simp add: Suc.IH)
  also have "\<dots> =
          (?L\<lparr>costmap := map (\<lambda>k. if r * sx \<le> k \<and> k < r * sx + sx
                                    then interpretValue ?L (data new_map ! k) else costmap ?L ! k)
                             [0..<length (costmap ?L)]\<rparr>,
           r * sx + sx)"
    by (rule incomingMap_row [OF sz])
  also have "\<dots> =
          (L\<lparr>costmap := map (\<lambda>k. if k < Suc r * sx
                                     then interpretValue L (data new_map ! k) else costmap L ! k)
                             [0..<length (costmap L)]\<rparr>,
           Suc r * sx)"
    by (auto simp: add.commute)
  finally show ?case .
qed

lemma incomingMap_loop_costmap:
  assumes "size_x L = sx" and "length (costmap L) = sx * sy" and "sx * sy \<le> length (data new_map)"
  shows "incomingMap_loop new_map sx sy L =
           L\<lparr>costmap := map (interpretValue L) (take (sx * sy) (data new_map))\<rparr>"
proof -
  have "map (\<lambda>k. if k < sy * sx then interpretValue L (data new_map ! k) else costmap L ! k)
          [0..<length (costmap L)]
        = map (interpretValue L) (take (sx * sy) (data new_map))"
    using assms(2,3) by (intro nth_equalityI) (auto simp: mult.commute)
  then show ?thesis
    using assms(1) by (simp add: incomingMap_loop_def incomingMap_rows)
qed



lemma incomingMap_result:
  assumes "grid_ok L" and "info_width s * info_height s \<le> length (data s)"
  shows "costmap (snd (incomingMap s (LC, L))) =
           map (interpretValue L) (take (info_width s * info_height s) (data s))
         \<and> size_x (snd (incomingMap s (LC, L))) = info_width s
         \<and> size_y (snd (incomingMap s (LC, L))) = info_height s
         \<and> rect_x (snd (incomingMap s (LC, L))) = 0
         \<and> rect_y (snd (incomingMap s (LC, L))) = 0
         \<and> rect_width (snd (incomingMap s (LC, L))) = info_width s
         \<and> rect_height (snd (incomingMap s (LC, L))) = info_height s
         \<and> map_received (snd (incomingMap s (LC, L)))
         \<and> has_updated_data (snd (incomingMap s (LC, L)))"
proof -
  let ?w = "info_width s" and ?h = "info_height s"
  let ?R = "resizeMap L ?w ?h (info_resolution s) (info_origin_x s) (info_origin_y s)"
  define L1 where "L1 =
     (if \<not> rolling LC \<and>
           (size_x (master LC) \<noteq> ?w \<or> size_y (master LC) \<noteq> ?h \<or>
            resolution (master LC) \<noteq> info_resolution s \<or>
            origin_x (master LC) \<noteq> info_origin_x s \<or>
            origin_y (master LC) \<noteq> info_origin_y s \<or> \<not> size_locked LC)
      then ?R
      else if size_x L \<noteq> ?w \<or> size_y L \<noteq> ?h \<or> resolution L \<noteq> info_resolution s \<or>
              origin_x L \<noteq> info_origin_x s \<or> origin_y L \<noteq> info_origin_y s
      then ?R else L)"
  have R: "size_x ?R = ?w" "size_y ?R = ?h" "length (costmap ?R) = ?w * ?h"
    by (simp_all add: resizeMap_def)
  have sx: "size_x L1 = ?w" and sy: "size_y L1 = ?h"
    using R by (auto simp: L1_def)
  have len: "length (costmap L1) = ?w * ?h"
    using R assms(1) by (auto simp: L1_def grid_ok_def)
  have iv: "interpretValue L1 = interpretValue L"
    by (rule ext) (simp add: L1_def)
  have loop: "incomingMap_loop s ?w ?h L1 =
                L1\<lparr>costmap := map (interpretValue L) (take (?w * ?h) (data s))\<rparr>"
    using incomingMap_loop_costmap [OF sx len assms(2)] by (simp add: iv)
  have "snd (incomingMap s (LC, L)) =
          (incomingMap_loop s ?w ?h L1)
            \<lparr>rect_x := 0, rect_y := 0, rect_width := size_x (incomingMap_loop s ?w ?h L1),
             rect_height := size_y (incomingMap_loop s ?w ?h L1),
             map_received := True, has_updated_data := True\<rparr>"
    by (simp add: incomingMap_def L1_def layered_resizeMap_def Let_def)
  then show ?thesis
    by (simp add: loop sx sy)
qed




text \<open>
  Claim C5, amended. \<^verbatim>\<open>incomingMap\<close> compares no shape with any buffer length
  and has no failing path. A snapshot whose buffer is longer than
  \<open>width * height\<close> is accepted like a well-formed one: the private grid becomes
  \<^verbatim>\<open>interpret\<close> of the first \<open>width * height\<close> cells, the dirty rectangle the
  whole grid, and \<^verbatim>\<open>map_received\<close> is set. (With a shorter buffer the loop reads
  past the end of the vector; nothing is stated about that.)
\<close>

theorem incomingMap_accepts_long_buffer:
  assumes "info_width s * info_height s < length (data s)"
    and "info_width s * info_height s < 2 ^ 32"
    and "grid_ok L"
    and "incomingMap s (LC, L) = (LC', L')"
  shows "costmap L' = map (interpretValue L) (take (info_width s * info_height s) (data s))
         \<and> size_x L' = info_width s \<and> size_y L' = info_height s \<and> grid_ok L'
         \<and> rect_x L' = 0 \<and> rect_y L' = 0
         \<and> rect_width L' = size_x L' \<and> rect_height L' = size_y L'
         \<and> map_received L' \<and> has_updated_data L'"
proof -
  have L': "L' = snd (incomingMap s (LC, L))" using assms(4) by simp
  have le: "info_width s * info_height s \<le> length (data s)" using assms(1) by simp
  note r = incomingMap_result [OF assms(3) le, of LC, folded L']
  have "grid_ok L'"
    using r le by (simp add: grid_ok_def)
  then show ?thesis
    using r by simp
qed

theorem incomingMap_accepts_long_buffer_witness:
  "info_width snapshot_long * info_height snapshot_long < length (data snapshot_long)
   \<and> grid_ok layer2x2
   \<and> costmap (snd (incomingMap snapshot_long (layered0, layer2x2))) = [254]
   \<and> rect_width (snd (incomingMap snapshot_long (layered0, layer2x2))) = 1
   \<and> rect_height (snd (incomingMap snapshot_long (layered0, layer2x2))) = 1
   \<and> map_received (snd (incomingMap snapshot_long (layered0, layer2x2)))"
proof -
  have a: "info_width snapshot_long * info_height snapshot_long < length (data snapshot_long)"
    by (simp add: snapshot_long_def)
  have b: "info_width snapshot_long * info_height snapshot_long < 2 ^ 32"
    by (simp add: snapshot_long_def)
  have c: "grid_ok layer2x2"
    by (simp add: grid_ok_def layer2x2_def layer0_def)
  have d: "incomingMap snapshot_long (layered0, layer2x2) =
             (fst (incomingMap snapshot_long (layered0, layer2x2)),
              snd (incomingMap snapshot_long (layered0, layer2x2)))"
    by simp
  have v: "interpretValue layer2x2 100 = 254"
    by (simp add: interpretValue_def layer2x2_def layer0_def LETHAL_OBSTACLE_def)
  show ?thesis
    using incomingMap_accepts_long_buffer [OF a b c d] a c v
    by (simp add: snapshot_long_def)
qed

text \<open>
  Claim C5 as stated fails: a snapshot announcing one cell and carrying two is
  not rejected, and the layer's grid, shape, dirty rectangle and flags change.
\<close>

theorem incomingMap_no_validation_counterexample:
  "info_width snapshot_long * info_height snapshot_long \<noteq> length (data snapshot_long)
   \<and> costmap layer2x2 = [0, 0, 0, 0]
   \<and> costmap (snd (incomingMap snapshot_long (layered0, layer2x2))) = [254]
   \<and> size_x layer2x2 = 2
   \<and> size_x (snd (incomingMap snapshot_long (layered0, layer2x2))) = 1
   \<and> rect_width layer2x2 = 0
   \<and> rect_width (snd (incomingMap snapshot_long (layered0, layer2x2))) = 1
   \<and> \<not> has_updated_data layer2x2
   \<and> has_updated_data (snd (incomingMap snapshot_long (layered0, layer2x2)))
   \<and> incomingMap snapshot_long (layered0, layer2x2) \<noteq> (layered0, layer2x2)"
proof -
  have c: "grid_ok layer2x2"
    by (simp add: grid_ok_def layer2x2_def layer0_def)
  have le: "info_width snapshot_long * info_height snapshot_long \<le> length (data snapshot_long)"
    by (simp add: snapshot_long_def)
  have v: "interpretValue layer2x2 100 = 254"
    by (simp add: interpretValue_def layer2x2_def layer0_def LETHAL_OBSTACLE_def)
  note r = incomingMap_result [OF c le, of layered0]
  have u: "has_updated_data (snd (incomingMap snapshot_long (layered0, layer2x2)))"
    using r by simp
  have n: "\<not> has_updated_data layer2x2"
    by (simp add: layer2x2_def layer0_def)
  have "incomingMap snapshot_long (layered0, layer2x2) \<noteq> (layered0, layer2x2)"
    using u n by (metis snd_conv)
  then show ?thesis
    using r v n by (simp add: snapshot_long_def layer2x2_def layer0_def)
qed

subsection \<open>Patches\<close>

lemma upt_one: "[0..<1] = [0]"
  by (simp add: upt_rec)

text \<open>
  Claim C2 does not hold of the code. A patch of one cell with value 100 at
  \<open>(1, 1)\<close>, applied to a grid of zeros, leaves cell \<open>(1, 1)\<close> at 0 and writes
  100 to cell \<open>(0, 0)\<close>: the patch's origin is not added to the cell written.
  The dirty rectangle does become the patch rectangle.
\<close>

theorem incomingUpdate_ignores_origin:
  "getCost (incomingUpdate patch0 layer2x2) 1 1 = 0
   \<and> getCost (incomingUpdate patch0 layer2x2) 0 0 = 100
   \<and> costmap (incomingUpdate patch0 layer2x2) = [100, 0, 0, 0]
   \<and> rect_x (incomingUpdate patch0 layer2x2) = 1
   \<and> rect_y (incomingUpdate patch0 layer2x2) = 1
   \<and> rect_width (incomingUpdate patch0 layer2x2) = 1
   \<and> rect_height (incomingUpdate patch0 layer2x2) = 1"
  by (simp add: incomingUpdate_def incomingUpdate_cell_def patch0_def layer2x2_def layer0_def
        setCost_def getCost_def getIndex_def to_unsigned_def Let_def upt_one)

subsection \<open>A disabled layer\<close>

text \<open>
  Claim C10. With \<^verbatim>\<open>enabled\<close> false, \<^verbatim>\<open>updateBounds\<close> returns at once: the
  caller's bounds and the whole layer, its dirty flag included, are unchanged;
  and \<^verbatim>\<open>updateCosts\<close> returns the master grid unchanged.
\<close>

theorem disabled_layer_is_inert:
  assumes "\<not> enabled L"
  shows "updateBounds ueb m2w L B = (L, B)
         \<and> updateCosts LC proj L master_grid min_i min_j max_i max_j = master_grid"
  using assms by (simp add: updateBounds_def updateCosts_def)

theorem disabled_layer_is_inert_witness:
  "\<not> enabled (layer2x2\<lparr>enabled := False, has_updated_data := True\<rparr>)
   \<and> updateBounds id (\<lambda>L mx my. (real mx, real my))
        (layer2x2\<lparr>enabled := False, has_updated_data := True\<rparr>) bounds0
       = (layer2x2\<lparr>enabled := False, has_updated_data := True\<rparr>, bounds0)
   \<and> updateCosts layered0 (\<lambda>i j. Some (i, j))
        (layer2x2\<lparr>enabled := False, has_updated_data := True\<rparr>) master0 0 0 2 2 = master0"
  using disabled_layer_is_inert [of "layer2x2\<lparr>enabled := False, has_updated_data := True\<rparr>"
      id "\<lambda>L mx my. (real mx, real my)" bounds0 layered0 "\<lambda>i j. Some (i, j)" master0 0 0 2 2]
  by (simp add: layer2x2_def layer0_def)

subsection \<open>Stamping with the maximum policy\<close>

lemma uchar_le_255: "(x :: 8 word) \<le> 255"
  using unsigned_less [of x, where ?'a = nat] by (simp add: word_le_nat_alt)

lemma uchar_le_254: "(x :: 8 word) \<noteq> 255 \<Longrightarrow> x \<le> 254"
  using unsigned_less [of x, where ?'a = nat] by (simp add: word_le_nat_alt word_unat_eq_iff)

lemma uchar_254_le: "(254 :: 8 word) \<le> x \<Longrightarrow> x \<noteq> 255 \<Longrightarrow> x = 254"
  using uchar_le_254 [of x] by simp

lemma cell_inv_refl: "cell_inv t old old"
  by (simp add: cell_inv_def LETHAL_OBSTACLE_def NO_INFORMATION_def)

lemma cell_inv_lethal: "cell_inv t old cur \<Longrightarrow> t \<Longrightarrow> cell_inv t old LETHAL_OBSTACLE"
  by (auto simp: cell_inv_def LETHAL_OBSTACLE_def NO_INFORMATION_def uchar_le_254)

lemma cell_inv_max:
  "cell_inv t old cur \<Longrightarrow> x \<noteq> NO_INFORMATION \<Longrightarrow> cell_inv t old (max x cur)"
  unfolding cell_inv_def LETHAL_OBSTACLE_def NO_INFORMATION_def
  by (auto simp: max_def uchar_le_254 uchar_le_255 dest: uchar_254_le)

lemma cell_inv_overwrite:
  "cell_inv t old NO_INFORMATION \<Longrightarrow> \<not> t \<Longrightarrow> x \<noteq> NO_INFORMATION \<Longrightarrow> cell_inv t old x"
  by (auto simp: cell_inv_def)


lemma grid_inv_refl: "grid_inv t M M"
  by (simp add: grid_inv_def cell_inv_refl)

lemma grid_inv_setCost:
  assumes "grid_inv t M0 M"
    and "getIndex M i j < length (costmap M) \<Longrightarrow> cell_inv t (costmap M0 ! getIndex M i j) c"
  shows "grid_inv t M0 (setCost M i j c)"
  unfolding grid_inv_def
proof (intro conjI allI impI)
  show "length (costmap (setCost M i j c)) = length (costmap M0)"
    using assms(1) by (simp add: grid_inv_def setCost_def)
next
  fix k
  assume k: "k < length (costmap M0)"
  show "cell_inv t (costmap M0 ! k) (costmap (setCost M i j c) ! k)"
  proof (cases "k = getIndex M i j")
    case True
    then have "getIndex M i j < length (costmap M)"
      using k assms(1) by (simp add: grid_inv_def)
    then show ?thesis
      using assms(2) True by (simp add: setCost_def)
  next
    case False
    then show ?thesis
      using k assms(1) by (simp add: grid_inv_def setCost_def)
  qed
qed

lemma updateCosts_cell_inv:
  assumes "use_maximum L" and "grid_inv (track_unknown_space L) M0 M"
  shows "grid_inv (track_unknown_space L) M0 (updateCosts_cell L proj i j M)"
proof (cases "proj i j")
  case None
  then show ?thesis using assms(2) by (simp add: updateCosts_cell_def)
next
  case (Some p)
  obtain mx my where p: "p = (mx, my)" by (cases p)
  let ?t = "track_unknown_space L"
  let ?cost = "getCost L mx my"
  let ?k = "getIndex M i j"
  have old: "getCost M i j = costmap M ! ?k"
    by (simp add: getCost_def)
  have cur: "cell_inv ?t (costmap M0 ! ?k) (costmap M ! ?k)" if "?k < length (costmap M)"
    using assms(2) that by (simp add: grid_inv_def)
  show ?thesis
  proof (cases "?cost = NO_INFORMATION")
    case True
    then show ?thesis using assms(2) Some p by (simp add: updateCosts_cell_def)
  next
    case known: False
    have merged: "grid_inv ?t M0 (setCost M i j (max ?cost (getCost M i j)))"
    proof (rule grid_inv_setCost [OF assms(2)])
      assume "?k < length (costmap M)"
      then show "cell_inv ?t (costmap M0 ! ?k) (max ?cost (getCost M i j))"
        unfolding old by (intro cell_inv_max cur known)
    qed
    show ?thesis
    proof (cases ?t)
      case True
      have "grid_inv ?t M0 (setCost M i j LETHAL_OBSTACLE)"
      proof (rule grid_inv_setCost [OF assms(2)])
        assume "?k < length (costmap M)"
        then show "cell_inv ?t (costmap M0 ! ?k) LETHAL_OBSTACLE"
          by (intro cell_inv_lethal [OF cur True])
      qed
      then show ?thesis
        using merged assms(1) Some p known True by (simp add: updateCosts_cell_def Let_def)
    next
      case False
      have "grid_inv ?t M0 (setCost M i j ?cost)" if unknown: "getCost M i j = NO_INFORMATION"
      proof (rule grid_inv_setCost [OF assms(2)])
        assume "?k < length (costmap M)"
        then have "cell_inv ?t (costmap M0 ! ?k) NO_INFORMATION"
          using cur unknown by (simp add: old)
        then show "cell_inv ?t (costmap M0 ! ?k) ?cost"
          using False known by (rule cell_inv_overwrite)
      qed
      then show ?thesis
        using merged assms(1) Some p known False by (simp add: updateCosts_cell_def Let_def)
    qed
  qed
qed

lemma updateCosts_rolling_inv:
  assumes "use_maximum L"
  shows "grid_inv (track_unknown_space L) M
           (fold (\<lambda>i. fold (\<lambda>j. updateCosts_cell L proj i j) js) is M)"
proof (rule fold_invariant [where Q = "\<lambda>i. True"])
  show "grid_inv (track_unknown_space L) M M" by (rule grid_inv_refl)
next
  fix i M'
  assume outer: "grid_inv (track_unknown_space L) M M'"
  show "grid_inv (track_unknown_space L) M (fold (\<lambda>j. updateCosts_cell L proj i j) js M')"
  proof (rule fold_invariant [where Q = "\<lambda>j. True"])
    show "grid_inv (track_unknown_space L) M M'" by (rule outer)
  next
    fix j M''
    assume "grid_inv (track_unknown_space L) M M''"
    then show "grid_inv (track_unknown_space L) M (updateCosts_cell L proj i j M'')"
      by (rule updateCosts_cell_inv [OF assms])
  qed simp
qed simp

lemma grid_mono_refl: "grid_mono M M"
  by (simp add: grid_mono_def)

lemma grid_mono_max:
  assumes "grid_mono M0 M"
  shows "grid_mono M0 (setCost M i j (max (getCost M i j) x))"
  unfolding grid_mono_def
proof (intro conjI allI impI)
  show "length (costmap (setCost M i j (max (getCost M i j) x))) = length (costmap M0)"
    using assms by (simp add: grid_mono_def setCost_def)
next
  fix k
  assume k: "k < length (costmap M0)"
  then have le: "costmap M0 ! k \<le> costmap M ! k"
    using assms by (simp add: grid_mono_def)
  show "costmap M0 ! k \<le> costmap (setCost M i j (max (getCost M i j) x)) ! k"
  proof (cases "k = getIndex M i j")
    case True
    then have "getIndex M i j < length (costmap M)"
      using k assms by (simp add: grid_mono_def)
    then have "costmap (setCost M i j (max (getCost M i j) x)) ! k = max (costmap M ! k) x"
      using True by (simp add: setCost_def getCost_def)
    moreover have "costmap M0 ! k \<le> max (costmap M ! k) x"
      using le by (rule max.coboundedI1)
    ultimately show ?thesis by (simp only:)
  next
    case False
    then show ?thesis using le by (simp add: setCost_def)
  qed
qed

lemma updateWithMax_mono: "grid_mono M (updateWithMax L M min_i min_j max_i max_j)"
  unfolding updateWithMax_def
proof (rule fold_invariant [where Q = "\<lambda>j. True"])
  show "grid_mono M M" by (rule grid_mono_refl)
next
  fix j M'
  assume outer: "grid_mono M M'"
  show "grid_mono M
          (fold (\<lambda>i M. setCost M i j (max (getCost M i j) (getCost L i j))) [nat min_i..<nat max_i] M')"
  proof (rule fold_invariant [where Q = "\<lambda>i. True"])
    show "grid_mono M M'" by (rule outer)
  next
    fix i M''
    assume "grid_mono M M''"
    then show "grid_mono M (setCost M'' i j (max (getCost M'' i j) (getCost L i j)))"
      by (rule grid_mono_max)
  qed simp
qed simp

text \<open>
  Claim C1, amended. With \<^verbatim>\<open>use_maximum\<close> set, \<^verbatim>\<open>updateCosts\<close> keeps the size of
  the master buffer and leaves every master cell at a value greater than or
  equal to its value before the call, except cells whose previous value was
  \<^verbatim>\<open>NO_INFO\<close> and for which either \<^verbatim>\<open>track_unknown_space\<close> is false or the value
  after the call is \<^verbatim>\<open>LETHAL\<close>.
\<close>

theorem updateCosts_maximum:
  assumes "use_maximum L"
  shows "length (costmap (updateCosts LC proj L master_grid min_i min_j max_i max_j))
           = length (costmap master_grid)
         \<and> (\<forall>k < length (costmap master_grid).
              costmap master_grid ! k
                \<le> costmap (updateCosts LC proj L master_grid min_i min_j max_i max_j) ! k
              \<or> (costmap master_grid ! k = NO_INFORMATION \<and>
                  (\<not> track_unknown_space L \<or>
                   costmap (updateCosts LC proj L master_grid min_i min_j max_i max_j) ! k
                     = LETHAL_OBSTACLE)))"
proof -
  let ?M' = "updateCosts LC proj L master_grid min_i min_j max_i max_j"
  consider (same) "?M' = master_grid"
    | (max) "?M' = updateWithMax L master_grid min_i min_j max_i max_j"
    | (roll) "?M' = fold (\<lambda>i. fold (\<lambda>j. updateCosts_cell L proj i j)
                             [to_unsigned min_j..<to_unsigned max_j])
                      [to_unsigned min_i..<to_unsigned max_i] master_grid"
  proof (cases "\<not> enabled L \<or> \<not> map_received L")
    case True
    then have "?M' = master_grid" by (auto simp: updateCosts_def)
    then show ?thesis by (rule same)
  next
    case False
    show ?thesis
    proof (cases "rolling LC")
      case True
      then show ?thesis using False by (intro roll) (simp add: updateCosts_def)
    next
      case nr: False
      then show ?thesis using False assms by (intro max) (simp add: updateCosts_def)
    qed
  qed
  then show ?thesis
  proof cases
    case same
    then show ?thesis by simp
  next
    case max
    have "grid_mono master_grid ?M'"
      unfolding max by (rule updateWithMax_mono)
    then show ?thesis by (simp add: grid_mono_def)
  next
    case roll
    have "grid_inv (track_unknown_space L) master_grid ?M'"
      unfolding roll by (rule updateCosts_rolling_inv [OF assms])
    then show ?thesis
      unfolding grid_inv_def cell_inv_def
      by (auto simp: NO_INFORMATION_def uchar_le_255)
  qed
qed


lemma upt_two: "[0..<2] = [0, 1]"
  by (simp add: upt_rec)

lemma updateCosts_rolling_example:
  "costmap (updateCosts layered0 (\<lambda>i j. Some (i, j)) layer_max master0 0 0 2 2) = [20, 254, 50, 40]"
  by (simp add: updateCosts_def updateCosts_cell_def layered0_def layer_max_def layer0_def
        master0_def to_unsigned_def upt_two setCost_def getCost_def getIndex_def
        NO_INFORMATION_def LETHAL_OBSTACLE_def Let_def)

theorem updateCosts_maximum_witness:
  "use_maximum layer_max
   \<and> costmap master0 ! 0 \<le> costmap (updateCosts layered0 (\<lambda>i j. Some (i, j)) layer_max master0 0 0 2 2) ! 0
   \<and> costmap master0 ! 1 = NO_INFORMATION
   \<and> costmap (updateCosts layered0 (\<lambda>i j. Some (i, j)) layer_max master0 0 0 2 2) ! 1 = LETHAL_OBSTACLE
   \<and> costmap master0 ! 0
       \<le> costmap (updateCosts (layered0\<lparr>rolling := False\<rparr>) (\<lambda>i j. Some (i, j)) layer_max master0 0 0 2 2) ! 0"
proof -
  have u: "use_maximum layer_max"
    by (simp add: layer_max_def layer0_def)
  have k: "0 < length (costmap master0)" "1 < length (costmap master0)"
    by (simp_all add: master0_def)
  have "costmap master0 ! 0
          \<le> costmap (updateCosts (layered0\<lparr>rolling := False\<rparr>) (\<lambda>i j. Some (i, j)) layer_max master0 0 0 2 2) ! 0"
    using updateCosts_maximum [OF u, of "layered0\<lparr>rolling := False\<rparr>" "\<lambda>i j. Some (i, j)" master0 0 0 2 2] k
    by (auto simp: master0_def NO_INFORMATION_def)
  moreover have "costmap master0 ! 0
          \<le> costmap (updateCosts layered0 (\<lambda>i j. Some (i, j)) layer_max master0 0 0 2 2) ! 0"
    using updateCosts_maximum [OF u, of layered0 "\<lambda>i j. Some (i, j)" master0 0 0 2 2] k
    by (auto simp: master0_def NO_INFORMATION_def)
  ultimately show ?thesis
    using u by (simp add: updateCosts_rolling_example) (simp add: master0_def NO_INFORMATION_def LETHAL_OBSTACLE_def)
qed

text \<open>
  Claim C1 as stated fails: in a rolling costmap with \<^verbatim>\<open>track_unknown_space\<close>
  true, a master cell without information (255) under a lethal cell of the
  static layer becomes \<^verbatim>\<open>LETHAL\<close> (254), a smaller value.
\<close>

theorem updateCosts_maximum_counterexample:
  "use_maximum layer_max \<and> map_received layer_max \<and> enabled layer_max
   \<and> track_unknown_space layer_max
   \<and> getCost master0 1 0 = NO_INFORMATION
   \<and> getCost (updateCosts layered0 (\<lambda>i j. Some (i, j)) layer_max master0 0 0 2 2) 1 0 = LETHAL_OBSTACLE
   \<and> getCost (updateCosts layered0 (\<lambda>i j. Some (i, j)) layer_max master0 0 0 2 2) 1 0
       < getCost master0 1 0"
proof -
  have "size_x (updateCosts layered0 (\<lambda>i j. Some (i, j)) layer_max master0 0 0 2 2) = 2"
    by (simp add: updateCosts_def updateCosts_cell_def layered0_def layer_max_def layer0_def
        master0_def to_unsigned_def upt_two setCost_def getCost_def getIndex_def
        NO_INFORMATION_def LETHAL_OBSTACLE_def Let_def)
  then show ?thesis
    by (simp add: getCost_def getIndex_def updateCosts_rolling_example)
       (simp add: layer_max_def layer0_def master0_def NO_INFORMATION_def LETHAL_OBSTACLE_def
          word_less_nat_alt)
qed

section \<open>Properties of the local planner\<close>

subsection \<open>The state machine\<close>

lemma determineState_fst:
  "fst (determineState P yaw_error plan_distance goal_distance) =
     (if goal_distance < switch_goal_distance P then Arrive
      else if \<bar>yaw_error\<bar> > switch_yaw_error P \<or>
              (prev_state P = Align \<and> \<bar>yaw_error\<bar> > switch_yaw_error P / 2)
      then Align else Default)"
  by (simp add: determineState_def Let_def)

lemma determineState_snd:
  "snd (determineState P yaw_error plan_distance goal_distance) =
     P\<lparr>prev_state := fst (determineState P yaw_error plan_distance goal_distance)\<rparr>"
  by (simp add: determineState_def Let_def)

text \<open>
  Claim C4. \<^verbatim>\<open>determineState\<close> returns \<^verbatim>\<open>Arrive\<close> when the goal distance is below
  \<^verbatim>\<open>switch_goal_distance\<close>; otherwise \<^verbatim>\<open>Align\<close> when \<open>\<bar>yaw_error\<bar>\<close> exceeds
  \<^verbatim>\<open>switch_yaw_error\<close>, or when the previous state was \<^verbatim>\<open>Align\<close> and
  \<open>\<bar>yaw_error\<bar>\<close> exceeds half of it; otherwise \<^verbatim>\<open>Default\<close>. The state it
  remembers is the state it returned, and the thresholds are untouched. Hence
  the hysteresis: away from the goal and with a positive threshold \<open>s\<close>, from
  \<^verbatim>\<open>Default\<close> an error of \<open>s - \<epsilon>\<close> stays in \<^verbatim>\<open>Default\<close>, \<open>s + \<epsilon>\<close> enters
  \<^verbatim>\<open>Align\<close>, \<open>0.6 * s\<close> stays in \<^verbatim>\<open>Align\<close>, and \<open>0.4 * s\<close> returns to \<^verbatim>\<open>Default\<close>.
\<close>

theorem determineState_guards:
  "(goal_distance < switch_goal_distance P \<longrightarrow>
      fst (determineState P yaw_error plan_distance goal_distance) = Arrive)
   \<and> (\<not> goal_distance < switch_goal_distance P \<and>
        (\<bar>yaw_error\<bar> > switch_yaw_error P \<or>
         (prev_state P = Align \<and> \<bar>yaw_error\<bar> > switch_yaw_error P / 2)) \<longrightarrow>
      fst (determineState P yaw_error plan_distance goal_distance) = Align)
   \<and> (\<not> goal_distance < switch_goal_distance P \<and>
        \<not> (\<bar>yaw_error\<bar> > switch_yaw_error P \<or>
           (prev_state P = Align \<and> \<bar>yaw_error\<bar> > switch_yaw_error P / 2)) \<longrightarrow>
      fst (determineState P yaw_error plan_distance goal_distance) = Default)
   \<and> prev_state (snd (determineState P yaw_error plan_distance goal_distance))
       = fst (determineState P yaw_error plan_distance goal_distance)
   \<and> switch_yaw_error (snd (determineState P yaw_error plan_distance goal_distance)) = switch_yaw_error P
   \<and> switch_goal_distance (snd (determineState P yaw_error plan_distance goal_distance)) = switch_goal_distance P
   \<and> (prev_state P = Default \<and> 0 < switch_yaw_error P \<and> 0 < \<epsilon> \<and>
       \<bar>y1\<bar> = switch_yaw_error P - \<epsilon> \<and> \<bar>y2\<bar> = switch_yaw_error P + \<epsilon> \<and>
       \<bar>y3\<bar> = switch_yaw_error P * (6 / 10) \<and> \<bar>y4\<bar> = switch_yaw_error P * (4 / 10) \<and>
       switch_goal_distance P \<le> g1 \<and> switch_goal_distance P \<le> g2 \<and>
       switch_goal_distance P \<le> g3 \<and> switch_goal_distance P \<le> g4 \<longrightarrow>
       (let (s1, P1) = determineState P y1 d1 g1;
            (s2, P2) = determineState P1 y2 d2 g2;
            (s3, P3) = determineState P2 y3 d3 g3;
            (s4, P4) = determineState P3 y4 d4 g4
        in s1 = Default \<and> s2 = Align \<and> s3 = Align \<and> s4 = Default))"
proof (intro conjI impI)
  assume h: "prev_state P = Default \<and> 0 < switch_yaw_error P \<and> 0 < \<epsilon> \<and>
       \<bar>y1\<bar> = switch_yaw_error P - \<epsilon> \<and> \<bar>y2\<bar> = switch_yaw_error P + \<epsilon> \<and>
       \<bar>y3\<bar> = switch_yaw_error P * (6 / 10) \<and> \<bar>y4\<bar> = switch_yaw_error P * (4 / 10) \<and>
       switch_goal_distance P \<le> g1 \<and> switch_goal_distance P \<le> g2 \<and>
       switch_goal_distance P \<le> g3 \<and> switch_goal_distance P \<le> g4"
  define s where "s = switch_yaw_error P"
  obtain s1 P1 where r1: "determineState P y1 d1 g1 = (s1, P1)" by (cases "determineState P y1 d1 g1")
  obtain s2 P2 where r2: "determineState P1 y2 d2 g2 = (s2, P2)" by (cases "determineState P1 y2 d2 g2")
  obtain s3 P3 where r3: "determineState P2 y3 d3 g3 = (s3, P3)" by (cases "determineState P2 y3 d3 g3")
  obtain s4 P4 where r4: "determineState P3 y4 d4 g4 = (s4, P4)" by (cases "determineState P3 y4 d4 g4")
  have e1: "s1 = Default" and p1: "P1 = P\<lparr>prev_state := s1\<rparr>"
    using h determineState_fst [of P y1 d1 g1] determineState_snd [of P y1 d1 g1] r1 by auto
  have e2: "s2 = Align" and p2: "P2 = P1\<lparr>prev_state := s2\<rparr>"
    using h p1 determineState_fst [of P1 y2 d2 g2] determineState_snd [of P1 y2 d2 g2] r2 by auto
  have e3: "s3 = Align" and p3: "P3 = P2\<lparr>prev_state := s3\<rparr>"
    using h p1 p2 e2 determineState_fst [of P2 y3 d3 g3] determineState_snd [of P2 y3 d3 g3] r3 by auto
  have e4: "s4 = Default"
    using h p1 p2 p3 e3 determineState_fst [of P3 y4 d4 g4] r4 by auto
  show "let (s1, P1) = determineState P y1 d1 g1;
            (s2, P2) = determineState P1 y2 d2 g2;
            (s3, P3) = determineState P2 y3 d3 g3;
            (s4, P4) = determineState P3 y4 d4 g4
        in s1 = Default \<and> s2 = Align \<and> s3 = Align \<and> s4 = Default"
    by (simp add: r1 r2 r3 r4 e1 e2 e3 e4)
qed (simp_all add: determineState_fst determineState_snd)

theorem determineState_guards_witness:
  "fst (determineState (planner0 1 1 1) 0 0 (1/2)) = Arrive
   \<and> fst (determineState ((planner0 1 1 1)\<lparr>prev_state := Align\<rparr>) (- 6/10) 0 2) = Align
   \<and> fst (determineState ((planner0 1 1 1)\<lparr>prev_state := Default\<rparr>) (- 6/10) 0 2) = Default
   \<and> (let (s1, P1) = determineState ((planner0 1 1 1)\<lparr>prev_state := Default\<rparr>) (9/10) 0 2;
          (s2, P2) = determineState P1 (- 11/10) 0 2;
          (s3, P3) = determineState P2 (6/10) 0 2;
          (s4, P4) = determineState P3 (- 4/10) 0 2
      in s1 = Default \<and> s2 = Align \<and> s3 = Align \<and> s4 = Default)"
  using determineState_guards [of "1/2" "planner0 1 1 1" 0 0 "1/10" 0 0 0 0 2 2 2 2 0 0 0 0]
    determineState_guards [of 2 "(planner0 1 1 1)\<lparr>prev_state := Align\<rparr>" "- 6/10" 0 "1/10" 0 0 0 0 2 2 2 2 0 0 0 0]
    determineState_guards [of 2 "(planner0 1 1 1)\<lparr>prev_state := Default\<rparr>" "- 6/10" 0 "1/10" "9/10" "- 11/10" "6/10" "- 4/10" 2 2 2 2 0 0 0 0]
  by (simp add: planner0_def)

subsection \<open>The control cycle\<close>

text \<open>
  Claim C7. When the cycle reaches the scored sampler (the check of
  \<^verbatim>\<open>getRobotStateAndLocalPlan\<close> passed) and the sampler returns \<open>traj\<close>: if its
  cost is at least 0, the command's \<open>linear.x\<close>, \<open>linear.y\<close> and \<open>angular.z\<close> are
  exactly the trajectory's velocities and the cycle returns true; if its cost is
  negative they are zero and the cycle returns false. The other three members
  of the command are not written.
\<close>

theorem computeVelocityCommands_command:
  assumes "getRobotStateAndLocalPlan E (fst locals, snd locals, []) = (r, robot_pose, robot_vel, local_plan)"
    and "observed (end_of_getRobotStateAndLocalPlan E) r"
    and "traj = findBestPath E robot_pose robot_vel local_plan"
  shows "(traj_cost traj \<ge> 0 \<longrightarrow>
            computeVelocityCommands E locals cmd_vel =
              (True, cmd_vel\<lparr>linear_x := traj_xv traj, linear_y := traj_yv traj,
                             angular_z := traj_thetav traj\<rparr>))
         \<and> (traj_cost traj < 0 \<longrightarrow>
            computeVelocityCommands E locals cmd_vel =
              (False, cmd_vel\<lparr>linear_x := 0, linear_y := 0, angular_z := 0\<rparr>))"
  using assms by (simp add: computeVelocityCommands_def setCmdVel_def Let_def)

theorem computeVelocityCommands_command_witness:
  "computeVelocityCommands collab0 (pose0, pose0) twist0 =
     (True, \<lparr>linear_x = 1 / 2, linear_y = 0, linear_z = 0, angular_x = 0, angular_y = 0, angular_z = 1 / 4\<rparr>)
   \<and> computeVelocityCommands
        (collab0\<lparr>findBestPath := (\<lambda>p v plan. \<lparr>traj_xv = 1 / 2, traj_yv = 0, traj_thetav = 1 / 4, traj_cost = - 1\<rparr>)\<rparr>)
        (pose0, pose0) twist0 =
     (False, \<lparr>linear_x = 0, linear_y = 0, linear_z = 0, angular_x = 0, angular_y = 0, angular_z = 0\<rparr>)"
proof -
  let ?p = "\<lparr>pose_x = 1, pose_y = 2, pose_yaw = 0\<rparr>"
  let ?plan = "[\<lparr>pose_x = 4, pose_y = 6, pose_yaw = 1 / 10\<rparr>]"
  let ?bad = "\<lparr>traj_xv = 1 / 2, traj_yv = 0, traj_thetav = 1 / 4, traj_cost = - 1\<rparr>"
  let ?E = "collab0\<lparr>findBestPath := (\<lambda>p v plan. ?bad)\<rparr>"
  have a: "getRobotStateAndLocalPlan collab0 (fst (pose0, pose0), snd (pose0, pose0), []) = (FellOffEnd, ?p, pose0, ?plan)"
    by (simp add: getRobotStateAndLocalPlan_def getRobotState_def collab0_def)
  have b: "observed (end_of_getRobotStateAndLocalPlan collab0) FellOffEnd"
    by (simp add: observed_def collab0_def)
  have c: "\<lparr>traj_xv = 1 / 2, traj_yv = 0, traj_thetav = 1 / 4, traj_cost = 3\<rparr> = findBestPath collab0 ?p pose0 ?plan"
    by (simp add: collab0_def)
  have a': "getRobotStateAndLocalPlan ?E (fst (pose0, pose0), snd (pose0, pose0), []) = (FellOffEnd, ?p, pose0, ?plan)"
    by (simp add: getRobotStateAndLocalPlan_def getRobotState_def collab0_def)
  have b': "observed (end_of_getRobotStateAndLocalPlan ?E) FellOffEnd"
    by (simp add: observed_def collab0_def)
  have c': "?bad = findBestPath ?E ?p pose0 ?plan"
    by simp
  show ?thesis
    using computeVelocityCommands_command [OF a b c, of twist0]
      computeVelocityCommands_command [OF a' b' c', of twist0]
    by (simp add: twist0_def)
qed

text \<open>
  Claim C9 does not hold of the code. \<^verbatim>\<open>isGoalReached\<close> first tests the result of
  \<^verbatim>\<open>getRobotState\<close>, and with a pose at hand \<^verbatim>\<open>getRobotState\<close> reaches its end
  without a \<^verbatim>\<open>return\<close> statement. With a pose and a goal available,
  \<^verbatim>\<open>isGoalReached\<close> therefore returns true only if the value read for that
  missing result happens to be true and, in addition, the distance to the goal is
  at most \<^verbatim>\<open>xy_goal_tolerance\<close>, the absolute angle difference is at most
  \<^verbatim>\<open>yaw_goal_tolerance\<close> and the robot is stopped: the three tests alone do
  not decide the result, as the claim says they do.
\<close>

theorem isGoalReached_missing_return:
  assumes "initialized E"
    and "getRobotPose E (fst locals) = (True, robot_pose)"
    and "getGoal E = (True, goal_pose)"
  shows "fst (getRobotState E locals) = FellOffEnd
         \<and> (isGoalReached E locals \<longleftrightarrow>
               end_of_getRobotState E
               \<and> getGoalPositionDistance E robot_pose (pose_x goal_pose) (pose_y goal_pose)
                   \<le> xy_goal_tolerance (getCurrentLimits E)
               \<and> \<bar>getGoalOrientationAngleDifference E robot_pose (pose_yaw goal_pose)\<bar>
                   \<le> yaw_goal_tolerance (getCurrentLimits E)
               \<and> stopped E (getRobotVel E) (rot_stopped_vel (getCurrentLimits E))
                     (trans_stopped_vel (getCurrentLimits E)))"
  using assms
  by (cases locals) (simp add: isGoalReached_def getRobotState_def observed_def Let_def)

text \<open>
  The robot is within tolerance of the goal and stopped, the pose and the goal
  are available, and \<^verbatim>\<open>isGoalReached\<close> is false when the missing result reads
  as false.
\<close>

theorem isGoalReached_missing_return_witness:
  "initialized collab0
   \<and> getRobotPose collab0 pose0 = (True, \<lparr>pose_x = 1, pose_y = 2, pose_yaw = 0\<rparr>)
   \<and> getGoal collab0 = (True, \<lparr>pose_x = 4, pose_y = 6, pose_yaw = 1 / 10\<rparr>)
   \<and> getGoalPositionDistance collab0 \<lparr>pose_x = 1, pose_y = 2, pose_yaw = 0\<rparr> 4 6
        \<le> xy_goal_tolerance (getCurrentLimits collab0)
   \<and> \<bar>getGoalOrientationAngleDifference collab0 \<lparr>pose_x = 1, pose_y = 2, pose_yaw = 0\<rparr> (1 / 10)\<bar>
        \<le> yaw_goal_tolerance (getCurrentLimits collab0)
   \<and> stopped collab0 (getRobotVel collab0) (rot_stopped_vel (getCurrentLimits collab0))
        (trans_stopped_vel (getCurrentLimits collab0))
   \<and> fst (getRobotState (collab0\<lparr>end_of_getRobotState := False\<rparr>) (pose0, pose0)) = FellOffEnd
   \<and> \<not> isGoalReached (collab0\<lparr>end_of_getRobotState := False\<rparr>) (pose0, pose0)"
proof -
  let ?p = "\<lparr>pose_x = 1, pose_y = 2, pose_yaw = 0\<rparr>"
  let ?g = "\<lparr>pose_x = 4, pose_y = 6, pose_yaw = 1 / 10\<rparr>"
  let ?E = "collab0\<lparr>end_of_getRobotState := False\<rparr>"
  have i: "initialized ?E" by (simp add: collab0_def)
  have p: "getRobotPose ?E (fst (pose0, pose0)) = (True, ?p)" by (simp add: collab0_def)
  have g: "getGoal ?E = (True, ?g)" by (simp add: collab0_def)
  show ?thesis
    using isGoalReached_missing_return [OF i p g]
    by (simp add: collab0_def pose0_def)
qed

text \<open>
  Whenever \<^verbatim>\<open>getRobotStateAndLocalPlan\<close> executes a \<^verbatim>\<open>return\<close> statement it
  returns false, and the cycle then returns false and leaves the command as it
  was. The result of \<^verbatim>\<open>getRobotState\<close> is not among the things it tests: after
  a failure of the pose source it still asks for the plan, and with a non-empty
  plan it reaches its end without a \<^verbatim>\<open>return\<close> statement, as it does when
  nothing failed.
\<close>

lemma computeVelocityCommands_after_return:
  assumes "fst (getRobotStateAndLocalPlan E (fst locals, snd locals, [])) = Returned b"
  shows "\<not> b \<and> computeVelocityCommands E locals cmd_vel = (False, cmd_vel)"
proof -
  obtain r rp rv lp where s: "getRobotStateAndLocalPlan E (fst locals, snd locals, []) = (r, rp, rv, lp)"
    by (cases "getRobotStateAndLocalPlan E (fst locals, snd locals, [])") auto
  have "r = Returned b" using assms s by simp
  moreover have "r = Returned False \<or> r = FellOffEnd"
    using s by (auto simp: getRobotStateAndLocalPlan_def split: prod.splits if_splits)
  ultimately have "\<not> b" by auto
  then show ?thesis
    using s \<open>r = Returned b\<close> by (simp add: computeVelocityCommands_def observed_def)
qed

end
